theory Spec2Isabelle
  imports Main "HOL-Library.Word"
begin

section \<open>JavaScript strings\<close>

text \<open>
  A JavaScript string is a sequence of 16-bit UTF-16 code units: \<open>length\<close> is the
  source's \<open>.length\<close>, \<open>take\<close> and \<open>drop\<close> are \<open>substring\<close>. The literals of
  \<open>src/main.js\<close> are ASCII (one code unit per character) apart from the two emoji of
  the placeholder paragraph, which are written as their surrogate pairs.
\<close>

type_synonym jschar = "16 word"
type_synonym jsstring = "jschar list"

definition js :: "string \<Rightarrow> jsstring" where
  "js s = map of_char s"

definition dquote :: jsstring where
  "dquote = [0x22]"

text \<open>
  \<open>String.prototype.toLowerCase\<close> and \<open>toUpperCase\<close> are built into the JavaScript
  engine. On a string of ASCII code units they map the 26 letters and nothing else. On a
  string with a code unit outside ASCII the result comes from the engine's Unicode
  tables, which are not part of the repository: the model takes them as the parameter
  \<open>engine\<close>, and every theorem below holds for every engine.
\<close>

record engine =
  unicodeLower :: "jsstring \<Rightarrow> jsstring"
  unicodeUpper :: "jsstring \<Rightarrow> jsstring"

definition is_ascii :: "jschar \<Rightarrow> bool" where
  "is_ascii c = (c < 0x80)"

definition ascii_lower :: "jschar \<Rightarrow> jschar" where
  "ascii_lower c = (if 0x41 \<le> c \<and> c \<le> 0x5A then c + 0x20 else c)"

definition ascii_upper :: "jschar \<Rightarrow> jschar" where
  "ascii_upper c = (if 0x61 \<le> c \<and> c \<le> 0x7A then c - 0x20 else c)"

definition toLowerCase :: "engine \<Rightarrow> jsstring \<Rightarrow> jsstring" where
  "toLowerCase E s = (if list_all is_ascii s then map ascii_lower s else unicodeLower E s)"

definition toUpperCase :: "engine \<Rightarrow> jsstring \<Rightarrow> jsstring" where
  "toUpperCase E s = (if list_all is_ascii s then map ascii_upper s else unicodeUpper E s)"

text \<open>\<open>s.substring(i, j)\<close> for \<open>i \<le> j\<close>, and \<open>s.substring(i)\<close>.\<close>

definition substring :: "jsstring \<Rightarrow> nat \<Rightarrow> nat \<Rightarrow> jsstring" where
  "substring s i j = take (j - i) (drop i s)"

definition substring_from :: "jsstring \<Rightarrow> nat \<Rightarrow> jsstring" where
  "substring_from s i = drop i s"

text \<open>
  A number in a template literal. The pull-request number is read from the event
  payload: it is \<open>undefined\<close> when the payload has none, and otherwise a non-negative
  integer of the size of a pull-request number, which JavaScript prints in decimal.
\<close>

fun decimal :: "nat \<Rightarrow> jsstring" where
  "decimal n = (if n < 10 then [0x30 + of_nat n]
                else decimal (n div 10) @ [0x30 + of_nat (n mod 10)])"

declare decimal.simps [simp del]

definition template_number :: "nat option \<Rightarrow> jsstring" where
  "template_number n = (case n of None \<Rightarrow> js ''undefined'' | Some k \<Rightarrow> decimal k)"


section \<open>The module constants\<close>

text \<open>\<open>colors\<close>, lines 5 to 9.\<close>

definition colors_success :: jsstring where
  "colors_success = js ''#2cbe4e''"

definition colors_failure :: jsstring where
  "colors_failure = js ''#ff0000''"

definition colors_other :: jsstring where
  "colors_other = js ''#ffc107''"

text \<open>
  \<open>events\<close>, lines 11 to 15, is a plain object literal, so \<open>events[key]\<close> finds the
  three properties of the literal and, for any other key, the properties that every
  object inherits from \<open>Object.prototype\<close>. Those are functions, or for \<open>__proto__\<close>
  the prototype object itself; none of them is a string. A key that names no property
  gives \<open>undefined\<close>, here \<open>None\<close>.
\<close>

datatype jsvalue = Str jsstring | Inherited string

definition events_pull_request :: jsstring where
  "events_pull_request = js ''pull_request''"

definition events_push :: jsstring where
  "events_push = js ''push''"

definition events_workflow_dispatch :: jsstring where
  "events_workflow_dispatch = js ''workflow_dispatch''"

definition object_prototype_names :: "string list" where
  "object_prototype_names =
     [''constructor'', ''__defineGetter__'', ''__defineSetter__'', ''hasOwnProperty'',
      ''__lookupGetter__'', ''__lookupSetter__'', ''isPrototypeOf'',
      ''propertyIsEnumerable'', ''toString'', ''valueOf'', ''__proto__'',
      ''toLocaleString'']"

definition events_get :: "jsstring \<Rightarrow> jsvalue option" where
  "events_get key =
     (if key = js ''pull_request'' then Some (Str events_pull_request)
      else if key = js ''push'' then Some (Str events_push)
      else if key = js ''workflow_dispatch'' then Some (Str events_workflow_dispatch)
      else map_option Inherited (find (\<lambda>n. js n = key) object_prototype_names))"

text \<open>A value in a template literal: a string as it is, an inherited property as
  the engine prints it.\<close>

definition template_value :: "jsvalue \<Rightarrow> jsstring" where
  "template_value v =
     (case v of
        Str s \<Rightarrow> s
      | Inherited n \<Rightarrow>
          (if n = ''__proto__'' then js ''[object Object]''
           else if n = ''constructor'' then js ''function Object() { [native code] }''
           else js ''function '' @ js n @ js ''() { [native code] }''))"


section \<open>The card\<close>

text \<open>
  The object that \<open>createCard\<close> returns, one record for each shape of object literal
  in lines 114 to 190. A property that some literals of a shape leave out is an option.
  The properties \<open>text\<close>, \<open>url\<close> and \<open>header\<close> are prefixed by the object they
  belong to.
\<close>

record icon_obj =
  iconUrl :: jsstring

record openLink_obj =
  link_url :: jsstring

record onClick_obj =
  openLink :: openLink_obj

record button_obj =
  button_text :: jsstring
  onClick :: onClick_obj

record decoratedText_obj =
  icon :: "icon_obj option"
  topLabel :: jsstring
  decorated_text :: jsstring
  wrapText :: "bool option"
  button :: "button_obj option"

record textParagraph_obj =
  paragraph_text :: jsstring

datatype widget = DecoratedText decoratedText_obj | TextParagraph textParagraph_obj

record section_obj =
  section_header :: "jsstring option"
  collapsible :: "bool option"
  widgets :: "widget list"

record header_obj =
  title :: jsstring
  subtitle :: jsstring
  imageUrl :: jsstring
  imageType :: jsstring

record card =
  header :: header_obj
  sections :: "section_obj list"

text \<open>
  The argument of \<open>createCard\<close>, line 74. \<open>eventName\<close> may be \<open>undefined\<close> (line 89
  guards it with \<open>|| ''\<close>) and so may \<open>number\<close>; the others are strings.
\<close>

record card_args =
  name :: jsstring
  owner :: jsstring
  repo :: jsstring
  eventName :: "jsstring option"
  ref :: jsstring
  actor :: jsstring
  workflow :: jsstring
  sha :: jsstring
  number :: "nat option"
  validationId :: jsstring
  validationStatus :: jsstring
  validationUrl :: jsstring
  validationDetails :: jsstring


section \<open>createCard\<close>

text \<open>Lines 75 to 87. The chain of tests assigns \<open>statusColor\<close> in each branch and
  \<open>statusType\<close> in the last one; \<open>statusName\<close> is a \<open>const\<close> computed before it.\<close>

definition statusLower :: "engine \<Rightarrow> card_args \<Rightarrow> jsstring" where
  "statusLower E a = toLowerCase E (validationStatus a)"

definition statusName :: "engine \<Rightarrow> card_args \<Rightarrow> jsstring" where
  "statusName E a =
     toUpperCase E (substring (validationStatus a) 0 1) @ substring_from (validationStatus a) 1"

definition statusColor :: "engine \<Rightarrow> card_args \<Rightarrow> jsstring" where
  "statusColor E a =
     (if statusLower E a = js ''success'' then colors_success
      else if statusLower E a = js ''failure'' then colors_failure
      else colors_other)"

definition statusType :: "engine \<Rightarrow> card_args \<Rightarrow> jsstring" where
  "statusType E a =
     (if statusLower E a = js ''success'' then statusLower E a
      else if statusLower E a = js ''failure'' then statusLower E a
      else js ''cancelled'')"

text \<open>Lines 89 to 97. \<open>event_key\<close> is the key of the lookup in line 89,
  \<open>(eventName || '').toLowerCase()\<close>.\<close>

definition event_key :: "engine \<Rightarrow> card_args \<Rightarrow> jsstring" where
  "event_key E a = toLowerCase E (case eventName a of None \<Rightarrow> [] | Some s \<Rightarrow> s)"

definition eventType :: "engine \<Rightarrow> card_args \<Rightarrow> jsvalue" where
  "eventType E a = (case events_get (event_key E a) of None \<Rightarrow> Str events_push | Some v \<Rightarrow> v)"

definition eventNameFmt :: "engine \<Rightarrow> card_args \<Rightarrow> jsstring" where
  "eventNameFmt E a =
     (if eventType E a = Str events_pull_request then js ''Pull Request''
      else if eventType E a = Str events_push then js ''Push''
      else js ''Workflow Dispatch'')"

text \<open>Lines 99 to 102.\<close>

definition eventPath :: "engine \<Rightarrow> card_args \<Rightarrow> jsstring" where
  "eventPath E a =
     (if eventType E a = Str events_pull_request then js ''/pull/'' @ template_number (number a)
      else js ''/commit/'' @ sha a)"

definition repoUrl :: "card_args \<Rightarrow> jsstring" where
  "repoUrl a = js ''https://github.com/'' @ owner a @ js ''/'' @ repo a"

definition eventUrl :: "engine \<Rightarrow> card_args \<Rightarrow> jsstring" where
  "eventUrl E a = repoUrl a @ eventPath E a"

definition checksUrl :: "engine \<Rightarrow> card_args \<Rightarrow> jsstring" where
  "checksUrl E a = repoUrl a @ eventPath E a @ js ''/checks''"

text \<open>Lines 103 to 113.\<close>

definition showNameWidget :: "card_args \<Rightarrow> bool" where
  "showNameWidget a = (length (name a) \<ge> 45)"

definition nameWidgets :: "card_args \<Rightarrow> widget list" where
  "nameWidgets a =
     (if showNameWidget a
      then [DecoratedText \<lparr>icon = None, topLabel = js ''Name'', decorated_text = name a,
                            wrapText = Some True, button = None\<rparr>]
      else [])"

text \<open>Lines 114 to 190.\<close>

definition assets :: jsstring where
  "assets = js ''https://raw.githubusercontent.com/ciro-maciel/google-chat-github-action/main/assets/''"

definition createCard :: "engine \<Rightarrow> card_args \<Rightarrow> card" where
  "createCard E a =
     \<lparr>header =
        \<lparr>title = name a,
         subtitle = owner a @ js ''/'' @ repo a,
         imageUrl = js ''https://github.githubassets.com/assets/GitHub-Mark-ea2971cee799.png'',
         imageType = js ''CIRCLE''\<rparr>,
      sections =
        [\<lparr>section_header = None, collapsible = None,
          widgets =
            [DecoratedText
               \<lparr>icon = Some \<lparr>iconUrl = assets @ js ''status_'' @ statusType E a @ js ''.png''\<rparr>,
                topLabel = js ''Status'',
                decorated_text =
                  js ''<font color='' @ dquote @ statusColor E a @ dquote @ js ''>''
                    @ statusName E a @ js ''</font>'',
                wrapText = None,
                button = Some \<lparr>button_text = js ''Open Job'',
                                onClick = \<lparr>openLink = \<lparr>link_url = checksUrl E a\<rparr>\<rparr>\<rparr>\<rparr>,
             DecoratedText
               \<lparr>icon = Some \<lparr>iconUrl =
                               assets @ js ''event_'' @ template_value (eventType E a) @ js ''.png''\<rparr>,
                topLabel = js ''Event'',
                decorated_text = eventNameFmt E a,
                wrapText = None,
                button = Some \<lparr>button_text = js ''Open Event'',
                                onClick = \<lparr>openLink = \<lparr>link_url = eventUrl E a\<rparr>\<rparr>\<rparr>\<rparr>,
             DecoratedText
               \<lparr>icon = Some \<lparr>iconUrl = assets @ js ''ref.png''\<rparr>,
                topLabel = js ''Ref'',
                decorated_text = ref a,
                wrapText = None,
                button = None\<rparr>,
             DecoratedText
               \<lparr>icon = Some \<lparr>iconUrl = assets @ js ''actor.png''\<rparr>,
                topLabel = js ''Actor'',
                decorated_text = actor a,
                wrapText = None,
                button = None\<rparr>]
            @ nameWidgets a\<rparr>,
         \<lparr>section_header = Some (js ''Code Standardization''), collapsible = Some False,
          widgets =
            [TextParagraph
               \<lparr>paragraph_text = js ''is coming...'' @ [0xD83E, 0xDEE5, 0xD83E, 0xDD13]\<rparr>]\<rparr>,
         \<lparr>section_header = Some (js ''Summary''), collapsible = Some True,
          widgets =
            [DecoratedText
               \<lparr>icon = Some \<lparr>iconUrl = assets @ js ''summary.png''\<rparr>,
                topLabel = js ''Name'',
                decorated_text = validationId a,
                wrapText = None,
                button = Some \<lparr>button_text = js ''Open Details'',
                                onClick = \<lparr>openLink = \<lparr>link_url = validationUrl a\<rparr>\<rparr>\<rparr>\<rparr>,
             TextParagraph \<lparr>paragraph_text = validationDetails a\<rparr>]\<rparr>]\<rparr>"

text \<open>Lines 193 to 195. The spread \<open>...card\<close> copies \<open>header\<close> and \<open>sections\<close>, the
  two properties of the card.\<close>

record named_card =
  card_name :: jsstring
  card_header :: header_obj
  card_sections :: "section_obj list"

record cardsV2_entry =
  cardId :: jsstring
  entry_card :: named_card

record body =
  body_text :: jsstring
  cardsV2 :: "cardsV2_entry list"

definition createBody :: "jsstring \<Rightarrow> card \<Rightarrow> body" where
  "createBody name' c =
     \<lparr>body_text = [],
      cardsV2 = [\<lparr>cardId = name',
                  entry_card = \<lparr>card_name = name', card_header = header c,
                                card_sections = sections c\<rparr>\<rparr>]\<rparr>"


section \<open>Effects: inputs, log, failure, HTTP\<close>

text \<open>
  What the action does besides computing: it reads its inputs (\<open>core.getInput\<close>),
  writes debug lines (\<open>core.debug\<close>), marks the run as failed (\<open>core.setFailed\<close>) and
  posts over HTTP (\<open>axios.post\<close>). The state records each of the three kinds of
  output in the order it happened. An action is a function on that state which either
  returns a value or throws.
\<close>

record response =
  status :: nat
  data :: jsstring

datatype exn = Error jsstring | AxiosError jsstring "response option"

definition template_exn :: "exn \<Rightarrow> jsstring" where
  "template_exn e =
     (case e of Error m \<Rightarrow> js ''Error: '' @ m | AxiosError m r \<Rightarrow> js ''AxiosError: '' @ m)"

text \<open>The debug lines of lines 35, 66 and 69, each with the values it interpolates.\<close>

datatype debug_line =
    SentNotification jsstring
  | RequestSuccess nat
  | RequestFailed body jsstring

record action_state =
  posts :: "(jsstring \<times> body) list"
  debug_log :: "debug_line list"
  failed :: "jsstring list"

type_synonym 'a action = "action_state \<Rightarrow> (exn + 'a) \<times> action_state"

definition return :: "'a \<Rightarrow> 'a action" where
  "return v = (\<lambda>st. (Inr v, st))"

definition throw :: "exn \<Rightarrow> 'a action" where
  "throw e = (\<lambda>st. (Inl e, st))"

definition await :: "'a action \<Rightarrow> ('a \<Rightarrow> 'b action) \<Rightarrow> 'b action" where
  "await m f = (\<lambda>st. case m st of (Inl e, st') \<Rightarrow> (Inl e, st') | (Inr v, st') \<Rightarrow> f v st')"

definition try_catch :: "'a action \<Rightarrow> (exn \<Rightarrow> 'a action) \<Rightarrow> 'a action" where
  "try_catch m h = (\<lambda>st. case m st of (Inl e, st') \<Rightarrow> h e st' | (Inr v, st') \<Rightarrow> (Inr v, st'))"

definition core_debug :: "debug_line \<Rightarrow> unit action" where
  "core_debug l = (\<lambda>st. (Inr (), st\<lparr>debug_log := debug_log st @ [l]\<rparr>))"

definition core_setFailed :: "jsstring \<Rightarrow> unit action" where
  "core_setFailed m = (\<lambda>st. (Inr (), st\<lparr>failed := failed st @ [m]\<rparr>))"

text \<open>
  \<open>core.getInput(name, { required: true })\<close> of the actions toolkit: the value of the
  input, or the empty string when the workflow gives none; a required input whose value
  is empty throws; otherwise the value is returned with the white space at both ends
  removed.
\<close>

definition is_whitespace :: "jschar \<Rightarrow> bool" where
  "is_whitespace c =
     (c \<in> set [0x09, 0x0A, 0x0B, 0x0C, 0x0D, 0x20, 0xA0, 0x1680, 0x2028, 0x2029, 0x202F,
               0x205F, 0x3000, 0xFEFF]
      \<or> (0x2000 \<le> c \<and> c \<le> 0x200A))"

definition trim :: "jsstring \<Rightarrow> jsstring" where
  "trim s = rev (dropWhile is_whitespace (rev (dropWhile is_whitespace s)))"

definition core_getInput :: "(string \<rightharpoonup> jsstring) \<Rightarrow> string \<Rightarrow> bool \<Rightarrow> jsstring action" where
  "core_getInput inputs n required =
     (let val = (case inputs n of None \<Rightarrow> [] | Some v \<Rightarrow> v)
      in if required \<and> val = []
         then throw (Error (js ''Input required and not supplied: '' @ js n))
         else return (trim val))"

text \<open>
  \<open>axios.post(url, body)\<close>: one request goes out. The network either gives no
  response (a transport error) or an HTTP response; axios resolves with a response whose
  status is from 200 to 299 and rejects in every other case.
\<close>

datatype transport = NoResponse jsstring | HttpResponse response

type_synonym network = "jsstring \<Rightarrow> body \<Rightarrow> transport"

definition axios_post :: "network \<Rightarrow> jsstring \<Rightarrow> body \<Rightarrow> response action" where
  "axios_post net url' b =
     (\<lambda>st. let st' = st\<lparr>posts := posts st @ [(url', b)]\<rparr>
           in case net url' b of
                NoResponse m \<Rightarrow> (Inl (AxiosError m None), st')
              | HttpResponse r \<Rightarrow>
                  if 200 \<le> status r \<and> status r < 300 then (Inr r, st')
                  else (Inl (AxiosError (js ''Request failed with status code '' @ decimal (status r))
                                        (Some r)), st'))"


section \<open>sendNotification and run\<close>

text \<open>
  \<open>github.context\<close>, as lines 43 to 45 read it: the values that the getters of the
  \<open>@actions/github\<close> library return.
\<close>

record github_context =
  context_owner :: jsstring
  context_repo :: jsstring
  context_eventName :: "jsstring option"
  context_sha :: jsstring
  context_ref :: jsstring
  context_actor :: jsstring
  context_workflow :: jsstring
  context_number :: "nat option"

text \<open>Lines 42 to 72. \<open>notification_args\<close> is the object literal of lines 47 to 61.\<close>

definition notification_args ::
  "github_context \<Rightarrow> jsstring \<Rightarrow> jsstring \<Rightarrow> jsstring \<Rightarrow> jsstring \<Rightarrow> jsstring \<Rightarrow> card_args" where
  "notification_args ctx name' validationId' validationStatus' validationUrl' validationDetails' =
     \<lparr>name = name',
      owner = context_owner ctx,
      repo = context_repo ctx,
      eventName = context_eventName ctx,
      ref = context_ref ctx,
      actor = context_actor ctx,
      workflow = context_workflow ctx,
      sha = context_sha ctx,
      number = context_number ctx,
      validationId = validationId',
      validationStatus = validationStatus',
      validationUrl = validationUrl',
      validationDetails = validationDetails'\<rparr>"

definition sendNotification ::
  "engine \<Rightarrow> network \<Rightarrow> github_context \<Rightarrow> jsstring \<Rightarrow> jsstring \<Rightarrow> jsstring \<Rightarrow> jsstring
     \<Rightarrow> jsstring \<Rightarrow> jsstring \<Rightarrow> bool action" where
  "sendNotification E net ctx name' url' validationId' validationStatus' validationUrl'
       validationDetails' =
     (let c = createCard E
                (notification_args ctx name' validationId' validationStatus' validationUrl'
                   validationDetails');
          b = createBody name' c
      in try_catch
           (await (axios_post net url' b) (\<lambda>response.
            await (core_debug (RequestSuccess (status response))) (\<lambda>_.
            return True)))
           (\<lambda>e.
            await (core_debug (RequestFailed b
                     (case e of AxiosError m (Some r) \<Rightarrow> data r | _ \<Rightarrow> []))) (\<lambda>_.
            return False)))"

text \<open>Lines 21 to 40.\<close>

definition run :: "engine \<Rightarrow> network \<Rightarrow> github_context \<Rightarrow> (string \<rightharpoonup> jsstring) \<Rightarrow> unit action" where
  "run E net ctx inputs =
     try_catch
       (await (core_getInput inputs ''name'' True) (\<lambda>name.
        await (core_getInput inputs ''url'' True) (\<lambda>url.
        await (core_getInput inputs ''validationId'' True) (\<lambda>validationId.
        await (core_getInput inputs ''validationStatus'' True) (\<lambda>validationStatus.
        await (core_getInput inputs ''validationUrl'' True) (\<lambda>validationUrl.
        await (core_getInput inputs ''validationDetails'' True) (\<lambda>validationDetails.
        await (sendNotification E net ctx name url validationId validationStatus validationUrl
                 validationDetails) (\<lambda>ok.
        if \<not> ok then core_setFailed (js ''error sending notification to google chat'')
        else core_debug (SentNotification name)))))))))
       (\<lambda>e. core_setFailed (js ''error sending notification to google chat: '' @ template_exn e))"


text \<open>
  The six inputs that lines 23 to 29 read, in that order. An input is missing when the
  workflow gives it no value or the empty one.
\<close>

definition required_inputs :: "string list" where
  "required_inputs =
     [''name'', ''url'', ''validationId'', ''validationStatus'', ''validationUrl'',
      ''validationDetails'']"

definition missing :: "(string \<rightharpoonup> jsstring) \<Rightarrow> string \<Rightarrow> bool" where
  "missing inputs n = (inputs n = None \<or> inputs n = Some [])"


section \<open>Reading a card\<close>

text \<open>
  The places of a card that the properties below speak about: the widgets of the first
  section, its first widget (the status) and its second (the event), the link of a
  widget's button and the URL of its icon. \<open>font\<close> is the markup that line 128 puts
  around the status label.
\<close>

definition first_section_widgets :: "card \<Rightarrow> widget list" where
  "first_section_widgets c = (case sections c of [] \<Rightarrow> [] | s # _ \<Rightarrow> widgets s)"

definition status_widget :: "card \<Rightarrow> decoratedText_obj option" where
  "status_widget c =
     (case first_section_widgets c of DecoratedText d # _ \<Rightarrow> Some d | _ \<Rightarrow> None)"

definition event_widget :: "card \<Rightarrow> decoratedText_obj option" where
  "event_widget c =
     (case first_section_widgets c of _ # DecoratedText d # _ \<Rightarrow> Some d | _ \<Rightarrow> None)"

definition button_url :: "decoratedText_obj \<Rightarrow> jsstring option" where
  "button_url d = map_option (\<lambda>b. link_url (openLink (onClick b))) (button d)"

definition icon_url :: "decoratedText_obj \<Rightarrow> jsstring option" where
  "icon_url d = map_option iconUrl (icon d)"

definition font :: "jsstring \<Rightarrow> jsstring \<Rightarrow> jsstring" where
  "font color label =
     js ''<font color='' @ dquote @ color @ dquote @ js ''>'' @ label @ js ''</font>''"


section \<open>Examples\<close>

text \<open>Concrete values for the examples: an engine that leaves every string with a
  code unit outside ASCII as it is, and the arguments of a run on a push.\<close>

definition ascii_engine :: engine where
  "ascii_engine = \<lparr>unicodeLower = id, unicodeUpper = id\<rparr>"

definition example_args :: card_args where
  "example_args =
     \<lparr>name = js ''build'', owner = js ''octo'', repo = js ''demo'',
      eventName = Some (js ''push''), ref = js ''refs/heads/main'', actor = js ''octocat'',
      workflow = js ''CI'', sha = js ''abc123'', number = None, validationId = js ''V-1'',
      validationStatus = js ''success'', validationUrl = js ''https://example.com/v/1'',
      validationDetails = js ''all good''\<rparr>"

text \<open>The context of a push, the state before the run, and three networks: one that
  answers 200, one that answers 500 and one that does not answer.\<close>

definition example_context :: github_context where
  "example_context =
     \<lparr>context_owner = js ''octo'', context_repo = js ''demo'',
      context_eventName = Some (js ''push''), context_sha = js ''abc123'',
      context_ref = js ''refs/heads/main'', context_actor = js ''octocat'',
      context_workflow = js ''CI'', context_number = None\<rparr>"

definition initial_state :: action_state where
  "initial_state = \<lparr>posts = [], debug_log = [], failed = []\<rparr>"

definition network_ok :: network where
  "network_ok = (\<lambda>u b. HttpResponse \<lparr>status = 200, data = js ''{}''\<rparr>)"



text \<open>The inputs of a workflow that gives all six.\<close>

definition example_inputs :: "string \<rightharpoonup> jsstring" where
  "example_inputs =
     map_of
       [(''name'', js ''build''), (''url'', js ''https://chat.example/hook''),
        (''validationId'', js ''V-1''), (''validationStatus'', js ''success''),
        (''validationUrl'', js ''https://example.com/v/1''),
        (''validationDetails'', js ''all good'')]"


section \<open>String literals\<close>

lemma of_char_nat_less: "(of_char c :: nat) < 65536"
proof -
  have "(of_char c :: nat) mod 256 < 256" by simp
  then have "(of_char c :: nat) < 256" by (simp only: of_char_mod_256)
  then show ?thesis by linarith
qed

lemma inj_js_char: "inj (of_char :: char \<Rightarrow> jschar)"
proof (rule injI)
  fix c d :: char
  assume "(of_char c :: jschar) = of_char d"
  then have "unat (of_nat (of_char c) :: jschar) = unat (of_nat (of_char d) :: jschar)"
    by (simp only: of_nat_of_char)
  then have "(of_char c :: nat) = of_char d"
    by (simp add: unat_of_nat of_char_nat_less)
  then show "c = d" by simp
qed

lemma js_eq_iff: "js s = js t \<longleftrightarrow> s = t"
  by (simp add: js_def inj_map_eq_map [OF inj_js_char])

lemma js_append: "js (s @ t) = js s @ js t"
  by (simp add: js_def)

lemma length_js: "length (js s) = length s"
  by (simp add: js_def)


section \<open>The first section of the card\<close>

lemma first_section_widgets_createCard:
  "first_section_widgets (createCard E a) =
     [DecoratedText
        \<lparr>icon = Some \<lparr>iconUrl = assets @ js ''status_'' @ statusType E a @ js ''.png''\<rparr>,
         topLabel = js ''Status'',
         decorated_text = font (statusColor E a) (statusName E a),
         wrapText = None,
         button = Some \<lparr>button_text = js ''Open Job'',
                         onClick = \<lparr>openLink = \<lparr>link_url = checksUrl E a\<rparr>\<rparr>\<rparr>\<rparr>,
      DecoratedText
        \<lparr>icon = Some \<lparr>iconUrl =
                        assets @ js ''event_'' @ template_value (eventType E a) @ js ''.png''\<rparr>,
         topLabel = js ''Event'',
         decorated_text = eventNameFmt E a,
         wrapText = None,
         button = Some \<lparr>button_text = js ''Open Event'',
                         onClick = \<lparr>openLink = \<lparr>link_url = eventUrl E a\<rparr>\<rparr>\<rparr>\<rparr>,
      DecoratedText
        \<lparr>icon = Some \<lparr>iconUrl = assets @ js ''ref.png''\<rparr>,
         topLabel = js ''Ref'', decorated_text = ref a, wrapText = None, button = None\<rparr>,
      DecoratedText
        \<lparr>icon = Some \<lparr>iconUrl = assets @ js ''actor.png''\<rparr>,
         topLabel = js ''Actor'', decorated_text = actor a, wrapText = None, button = None\<rparr>]
     @ nameWidgets a"
  by (simp add: first_section_widgets_def createCard_def font_def)

lemma status_widget_createCard:
  "status_widget (createCard E a) =
     Some \<lparr>icon = Some \<lparr>iconUrl = assets @ js ''status_'' @ statusType E a @ js ''.png''\<rparr>,
           topLabel = js ''Status'',
           decorated_text = font (statusColor E a) (statusName E a),
           wrapText = None,
           button = Some \<lparr>button_text = js ''Open Job'',
                           onClick = \<lparr>openLink = \<lparr>link_url = checksUrl E a\<rparr>\<rparr>\<rparr>\<rparr>"
  by (simp add: status_widget_def first_section_widgets_createCard)

lemma event_widget_createCard:
  "event_widget (createCard E a) =
     Some \<lparr>icon = Some \<lparr>iconUrl =
                          assets @ js ''event_'' @ template_value (eventType E a) @ js ''.png''\<rparr>,
           topLabel = js ''Event'',
           decorated_text = eventNameFmt E a,
           wrapText = None,
           button = Some \<lparr>button_text = js ''Open Event'',
                           onClick = \<lparr>openLink = \<lparr>link_url = eventUrl E a\<rparr>\<rparr>\<rparr>\<rparr>"
  by (simp add: event_widget_def first_section_widgets_createCard)

lemma status_text_createCard:
  "map_option decorated_text (status_widget (createCard E a)) =
     Some (font (statusColor E a) (statusName E a))"
  by (simp add: status_widget_createCard)

lemma statusName_eq:
  "statusName E a =
     toUpperCase E (take 1 (validationStatus a)) @ drop 1 (validationStatus a)"
  by (simp add: statusName_def substring_def substring_from_def)


section \<open>The status\<close>

text \<open>
  C3. When the lower-cased status is \<open>success\<close> the text of the status widget is in
  the green \<open>#2cbe4e\<close>, when it is \<open>failure\<close> in the red \<open>#ff0000\<close>, and in both
  cases the label is the status as given with its first code unit upper-cased and the
  rest unchanged. The status \<open>success\<close> is shown as \<open>Success\<close> and \<open>failure\<close> as
  \<open>Failure\<close>.
\<close>

theorem status_success_failure:
  "(statusLower E a = js ''success'' \<longrightarrow>
      map_option decorated_text (status_widget (createCard E a)) =
        Some (font (js ''#2cbe4e'')
                (toUpperCase E (take 1 (validationStatus a)) @ drop 1 (validationStatus a))))
   \<and> (statusLower E a = js ''failure'' \<longrightarrow>
      map_option decorated_text (status_widget (createCard E a)) =
        Some (font (js ''#ff0000'')
                (toUpperCase E (take 1 (validationStatus a)) @ drop 1 (validationStatus a))))
   \<and> (validationStatus a = js ''success'' \<longrightarrow>
      map_option decorated_text (status_widget (createCard E a)) =
        Some (font (js ''#2cbe4e'') (js ''Success'')))
   \<and> (validationStatus a = js ''failure'' \<longrightarrow>
      map_option decorated_text (status_widget (createCard E a)) =
        Some (font (js ''#ff0000'') (js ''Failure'')))"
proof -
  have low: "toLowerCase E (js ''success'') = js ''success''"
            "toLowerCase E (js ''failure'') = js ''failure''"
    by (simp_all add: toLowerCase_def js_def is_ascii_def ascii_lower_def)
  have up: "toUpperCase E (take 1 (js ''success'')) @ drop 1 (js ''success'') = js ''Success''"
           "toUpperCase E (take 1 (js ''failure'')) @ drop 1 (js ''failure'') = js ''Failure''"
    by (simp_all add: toUpperCase_def js_def is_ascii_def ascii_upper_def)
  have ne: "js ''failure'' \<noteq> js ''success''"
    by (simp add: js_eq_iff)
  show ?thesis
    using low up ne
    by (simp add: status_text_createCard statusColor_def statusLower_def statusName_eq
        colors_success_def colors_failure_def)
qed

theorem status_success_failure_witness:
  "statusLower ascii_engine (example_args\<lparr>validationStatus := js ''SUCCESS''\<rparr>) = js ''success''
   \<and> map_option decorated_text
        (status_widget (createCard ascii_engine (example_args\<lparr>validationStatus := js ''SUCCESS''\<rparr>)))
      = Some (font (js ''#2cbe4e'') (js ''SUCCESS''))
   \<and> statusLower ascii_engine (example_args\<lparr>validationStatus := js ''failure''\<rparr>) = js ''failure''
   \<and> map_option decorated_text
        (status_widget (createCard ascii_engine (example_args\<lparr>validationStatus := js ''failure''\<rparr>)))
      = Some (font (js ''#ff0000'') (js ''Failure''))
   \<and> map_option decorated_text (status_widget (createCard ascii_engine example_args))
      = Some (font (js ''#2cbe4e'') (js ''Success''))"
proof -
  have l1: "statusLower ascii_engine (example_args\<lparr>validationStatus := js ''SUCCESS''\<rparr>)
              = js ''success''"
    by (simp add: statusLower_def toLowerCase_def js_def is_ascii_def ascii_lower_def)
  have l2: "statusLower ascii_engine (example_args\<lparr>validationStatus := js ''failure''\<rparr>)
              = js ''failure''"
    by (simp add: statusLower_def toLowerCase_def js_def is_ascii_def ascii_lower_def)
  have u1: "toUpperCase ascii_engine (take 1 (js ''SUCCESS'')) @ drop 1 (js ''SUCCESS'')
              = js ''SUCCESS''"
    by (simp add: toUpperCase_def js_def is_ascii_def ascii_upper_def)
  have v: "validationStatus example_args = js ''success''"
    by (simp add: example_args_def)
  show ?thesis
    using l1 l2 u1 v
      status_success_failure [of ascii_engine "example_args\<lparr>validationStatus := js ''SUCCESS''\<rparr>"]
      status_success_failure [of ascii_engine "example_args\<lparr>validationStatus := js ''failure''\<rparr>"]
      status_success_failure [of ascii_engine example_args]
    by simp
qed


lemma statusColor_other:
  "statusLower E a \<noteq> js ''success'' \<Longrightarrow> statusLower E a \<noteq> js ''failure'' \<Longrightarrow>
   statusColor E a = js ''#ffc107''"
  by (simp add: statusColor_def colors_other_def)

lemma font_eq_iff: "font c l = font c l' \<longleftrightarrow> l = l'"
  by (simp add: font_def)

text \<open>
  C1, as stated, fails. The status \<open>unknown\<close> is neither \<open>success\<close> nor
  \<open>failure\<close>; the widget is amber, but its label is \<open>Unknown\<close>, not
  \<open>Cancelled\<close>: line 77 computes \<open>statusName\<close> from the input and the last
  branch, lines 83 to 87, changes only the colour and the icon.
\<close>

theorem status_other_counterexample:
  "statusLower ascii_engine (example_args\<lparr>validationStatus := js ''unknown''\<rparr>) \<noteq> js ''success''
   \<and> statusLower ascii_engine (example_args\<lparr>validationStatus := js ''unknown''\<rparr>) \<noteq> js ''failure''
   \<and> map_option decorated_text
        (status_widget (createCard ascii_engine (example_args\<lparr>validationStatus := js ''unknown''\<rparr>)))
      = Some (font (js ''#ffc107'') (js ''Unknown''))
   \<and> map_option decorated_text
        (status_widget (createCard ascii_engine (example_args\<lparr>validationStatus := js ''unknown''\<rparr>)))
      \<noteq> Some (font (js ''#ffc107'') (js ''Cancelled''))"
proof -
  let ?a = "example_args\<lparr>validationStatus := js ''unknown''\<rparr>"
  have low: "statusLower ascii_engine ?a = js ''unknown''"
    by (simp add: statusLower_def toLowerCase_def js_def is_ascii_def ascii_lower_def)
  have nm: "statusName ascii_engine ?a = js ''Unknown''"
    by (simp add: statusName_eq toUpperCase_def js_def is_ascii_def ascii_upper_def)
  have ne: "js ''unknown'' \<noteq> js ''success''" "js ''unknown'' \<noteq> js ''failure''"
    "js ''Unknown'' \<noteq> js ''Cancelled''"
    by (simp_all add: js_eq_iff)
  have col: "statusColor ascii_engine ?a = js ''#ffc107''"
    using low ne by (simp add: statusColor_other)
  have fne: "font (js ''#ffc107'') (js ''Unknown'') \<noteq> font (js ''#ffc107'') (js ''Cancelled'')"
    using ne(3) by (simp add: font_eq_iff)
  show ?thesis
    using low ne(1,2) fne by (simp add: status_text_createCard col nm)
qed

text \<open>
  C1, amended. When the lower-cased status is neither \<open>success\<close> nor \<open>failure\<close>
  the text of the status widget is in the amber \<open>#ffc107\<close> and the label is the
  status as given with its first code unit upper-cased and the rest unchanged:
  \<open>CANCELLED\<close> stays \<open>CANCELLED\<close>, \<open>unknown\<close> is shown as \<open>Unknown\<close>, the
  empty status as the empty label, and \<open>cancelled\<close> as \<open>Cancelled\<close>.
\<close>

theorem status_other:
  "(statusLower E a \<noteq> js ''success'' \<and> statusLower E a \<noteq> js ''failure'' \<longrightarrow>
      map_option decorated_text (status_widget (createCard E a)) =
        Some (font (js ''#ffc107'')
                (toUpperCase E (take 1 (validationStatus a)) @ drop 1 (validationStatus a))))
   \<and> (validationStatus a = js ''CANCELLED'' \<longrightarrow>
      map_option decorated_text (status_widget (createCard E a)) =
        Some (font (js ''#ffc107'') (js ''CANCELLED'')))
   \<and> (validationStatus a = js ''unknown'' \<longrightarrow>
      map_option decorated_text (status_widget (createCard E a)) =
        Some (font (js ''#ffc107'') (js ''Unknown'')))
   \<and> (validationStatus a = [] \<longrightarrow>
      map_option decorated_text (status_widget (createCard E a)) =
        Some (font (js ''#ffc107'') []))
   \<and> (validationStatus a = js ''cancelled'' \<longrightarrow>
      map_option decorated_text (status_widget (createCard E a)) =
        Some (font (js ''#ffc107'') (js ''Cancelled'')))"
proof -
  have low: "toLowerCase E (js ''CANCELLED'') = js ''cancelled''"
    "toLowerCase E (js ''unknown'') = js ''unknown''"
    "toLowerCase E [] = []"
    "toLowerCase E (js ''cancelled'') = js ''cancelled''"
    by (simp_all add: toLowerCase_def js_def is_ascii_def ascii_lower_def)
  have up: "toUpperCase E (take 1 (js ''CANCELLED'')) @ drop 1 (js ''CANCELLED'') = js ''CANCELLED''"
    "toUpperCase E (take 1 (js ''unknown'')) @ drop 1 (js ''unknown'') = js ''Unknown''"
    "toUpperCase E (take 1 []) @ drop 1 [] = []"
    "toUpperCase E (take 1 (js ''cancelled'')) @ drop 1 (js ''cancelled'') = js ''Cancelled''"
    by (simp_all add: toUpperCase_def js_def is_ascii_def ascii_upper_def)
  have ne: "js ''cancelled'' \<noteq> js ''success''" "js ''cancelled'' \<noteq> js ''failure''"
    "js ''unknown'' \<noteq> js ''success''" "js ''unknown'' \<noteq> js ''failure''"
    "[] \<noteq> js ''success''" "[] \<noteq> js ''failure''"
    by (simp_all add: js_eq_iff) (simp_all add: js_def)
  show ?thesis
    using low up ne
    by (simp add: status_text_createCard statusColor_def statusLower_def statusName_eq
        colors_other_def)
qed

theorem status_other_witness:
  "statusLower ascii_engine (example_args\<lparr>validationStatus := js ''Timed_out''\<rparr>) \<noteq> js ''success''
   \<and> statusLower ascii_engine (example_args\<lparr>validationStatus := js ''Timed_out''\<rparr>) \<noteq> js ''failure''
   \<and> map_option decorated_text
        (status_widget (createCard ascii_engine (example_args\<lparr>validationStatus := js ''Timed_out''\<rparr>)))
      = Some (font (js ''#ffc107'') (js ''Timed_out''))
   \<and> map_option decorated_text
        (status_widget (createCard ascii_engine (example_args\<lparr>validationStatus := js ''CANCELLED''\<rparr>)))
      = Some (font (js ''#ffc107'') (js ''CANCELLED''))
   \<and> map_option decorated_text
        (status_widget (createCard ascii_engine (example_args\<lparr>validationStatus := js ''unknown''\<rparr>)))
      = Some (font (js ''#ffc107'') (js ''Unknown''))
   \<and> map_option decorated_text
        (status_widget (createCard ascii_engine (example_args\<lparr>validationStatus := []\<rparr>)))
      = Some (font (js ''#ffc107'') [])
   \<and> map_option decorated_text
        (status_widget (createCard ascii_engine (example_args\<lparr>validationStatus := js ''cancelled''\<rparr>)))
      = Some (font (js ''#ffc107'') (js ''Cancelled''))"
proof -
  let ?a = "example_args\<lparr>validationStatus := js ''Timed_out''\<rparr>"
  have low: "statusLower ascii_engine ?a = js ''timed_out''"
    by (simp add: statusLower_def toLowerCase_def js_def is_ascii_def ascii_lower_def)
  have ne: "js ''timed_out'' \<noteq> js ''success''" "js ''timed_out'' \<noteq> js ''failure''"
    by (simp_all add: js_eq_iff)
  have up: "toUpperCase ascii_engine (take 1 (js ''Timed_out'')) @ drop 1 (js ''Timed_out'')
              = js ''Timed_out''"
    by (simp add: toUpperCase_def js_def is_ascii_def ascii_upper_def)
  show ?thesis
    using low ne up
      status_other [of ascii_engine ?a]
      status_other [of ascii_engine "example_args\<lparr>validationStatus := js ''CANCELLED''\<rparr>"]
      status_other [of ascii_engine "example_args\<lparr>validationStatus := js ''unknown''\<rparr>"]
      status_other [of ascii_engine "example_args\<lparr>validationStatus := []\<rparr>"]
      status_other [of ascii_engine "example_args\<lparr>validationStatus := js ''cancelled''\<rparr>"]
    by simp
qed


section \<open>The event\<close>

lemma events_ne:
  "events_push \<noteq> events_pull_request" "events_workflow_dispatch \<noteq> events_pull_request"
  "events_workflow_dispatch \<noteq> events_push"
  by (simp_all add: events_push_def events_pull_request_def events_workflow_dispatch_def js_eq_iff)

lemma eventType_pull_request_iff:
  "eventType E a = Str events_pull_request \<longleftrightarrow> event_key E a = js ''pull_request''"
  by (auto simp: eventType_def events_get_def events_ne split: option.splits)

lemma eventType_unrecognized:
  assumes "event_key E a \<noteq> js ''pull_request''" "event_key E a \<noteq> js ''push''"
    "event_key E a \<noteq> js ''workflow_dispatch''"
  shows "eventType E a =
    (case find (\<lambda>n. js n = event_key E a) object_prototype_names of
       None \<Rightarrow> Str events_push | Some n \<Rightarrow> Inherited n)"
  using assms by (simp add: eventType_def events_get_def split: option.splits)

lemma eventType_fallback:
  assumes "event_key E a \<noteq> js ''pull_request''" "event_key E a \<noteq> js ''push''"
    "event_key E a \<noteq> js ''workflow_dispatch''"
    "event_key E a \<notin> js ` set object_prototype_names"
  shows "eventType E a = Str events_push"
proof -
  have "\<forall>n\<in>set object_prototype_names. js n \<noteq> event_key E a"
    using assms(4) by (auto simp: image_iff)
  then have "find (\<lambda>n. js n = event_key E a) object_prototype_names = None"
    by (simp add: find_None_iff)
  then show ?thesis
    using assms(1-3) by (simp add: eventType_unrecognized)
qed

lemma event_url_createCard:
  "Option.bind (event_widget (createCard E a)) button_url = Some (eventUrl E a)"
  by (simp add: event_widget_createCard button_url_def)

lemma event_text_createCard:
  "map_option decorated_text (event_widget (createCard E a)) = Some (eventNameFmt E a)"
  by (simp add: event_widget_createCard)

lemma eventUrl_commit:
  "event_key E a \<noteq> js ''pull_request'' \<Longrightarrow>
   eventUrl E a = js ''https://github.com/'' @ owner a @ js ''/'' @ repo a @ js ''/commit/'' @ sha a"
  by (simp add: eventUrl_def repoUrl_def eventPath_def eventType_pull_request_iff)

lemma event_key_empty:
  "eventName a = None \<or> eventName a = Some [] \<Longrightarrow> event_key E a = []"
  by (auto simp: event_key_def toLowerCase_def)

lemma event_key_weird:
  "eventName a = Some (js ''weird_event'') \<Longrightarrow> event_key E a = js ''weird_event''"
  by (simp add: event_key_def toLowerCase_def js_def is_ascii_def ascii_lower_def)

lemma not_inherited:
  "[] \<notin> js ` set object_prototype_names"
  "js ''weird_event'' \<notin> js ` set object_prototype_names"
  by (simp_all add: object_prototype_names_def js_eq_iff) (simp add: js_def)

lemma not_recognized:
  "[] \<noteq> js ''pull_request''" "[] \<noteq> js ''push''" "[] \<noteq> js ''workflow_dispatch''"
  "js ''weird_event'' \<noteq> js ''pull_request''" "js ''weird_event'' \<noteq> js ''push''"
  "js ''weird_event'' \<noteq> js ''workflow_dispatch''"
  by (simp_all add: js_eq_iff) (simp_all add: js_def)

text \<open>
  C2, as stated, fails. The event name \<open>weird_event\<close> is none of the three recognized
  ones; the event link is the commit URL, but the label is \<open>Push\<close>, not
  \<open>Workflow Dispatch\<close>: line 89 replaces an unrecognized name by \<open>events.push\<close>, and
  the label of lines 91 to 97 is computed from that.
\<close>

theorem event_unrecognized_counterexample:
  "event_key ascii_engine (example_args\<lparr>eventName := Some (js ''weird_event'')\<rparr>) \<noteq> js ''pull_request''
   \<and> event_key ascii_engine (example_args\<lparr>eventName := Some (js ''weird_event'')\<rparr>) \<noteq> js ''push''
   \<and> event_key ascii_engine (example_args\<lparr>eventName := Some (js ''weird_event'')\<rparr>)
       \<noteq> js ''workflow_dispatch''
   \<and> Option.bind
        (event_widget (createCard ascii_engine (example_args\<lparr>eventName := Some (js ''weird_event'')\<rparr>)))
        button_url
      = Some (js ''https://github.com/octo/demo/commit/abc123'')
   \<and> map_option decorated_text
        (event_widget (createCard ascii_engine (example_args\<lparr>eventName := Some (js ''weird_event'')\<rparr>)))
      = Some (js ''Push'')
   \<and> map_option decorated_text
        (event_widget (createCard ascii_engine (example_args\<lparr>eventName := Some (js ''weird_event'')\<rparr>)))
      \<noteq> Some (js ''Workflow Dispatch'')"
proof -
  let ?a = "example_args\<lparr>eventName := Some (js ''weird_event'')\<rparr>"
  have k: "event_key ascii_engine ?a = js ''weird_event''"
    by (simp add: event_key_weird)
  have t: "eventType ascii_engine ?a = Str events_push"
    by (rule eventType_fallback) (simp_all add: k not_recognized not_inherited)
  have n: "eventNameFmt ascii_engine ?a = js ''Push''"
    by (simp add: eventNameFmt_def t events_ne)
  have "eventUrl ascii_engine ?a =
      js ''https://github.com/'' @ owner ?a @ js ''/'' @ repo ?a @ js ''/commit/'' @ sha ?a"
    by (rule eventUrl_commit) (simp add: k not_recognized)
  then have u: "eventUrl ascii_engine ?a = js ''https://github.com/octo/demo/commit/abc123''"
    by (simp add: example_args_def js_append [symmetric])
  have ne: "js ''Push'' \<noteq> js ''Workflow Dispatch''"
    by (simp add: js_eq_iff)
  show ?thesis
    using ne by (simp add: k not_recognized event_url_createCard event_text_createCard n u)
qed

text \<open>
  C2, amended. When the lower-cased event name (the empty string for a missing one) is
  none of \<open>pull_request\<close>, \<open>push\<close> and \<open>workflow_dispatch\<close>, the event link is the
  repository URL followed by \<open>/commit/\<close> and the sha; when it is moreover not the name
  of a property that the \<open>events\<close> object inherits, the event label is \<open>Push\<close>. So
  it is for a missing name, the empty name and \<open>weird_event\<close>.
\<close>

theorem event_unrecognized:
  "(event_key E a \<noteq> js ''pull_request'' \<and> event_key E a \<noteq> js ''push''
      \<and> event_key E a \<noteq> js ''workflow_dispatch'' \<longrightarrow>
      Option.bind (event_widget (createCard E a)) button_url =
        Some (js ''https://github.com/'' @ owner a @ js ''/'' @ repo a @ js ''/commit/'' @ sha a))
   \<and> (event_key E a \<noteq> js ''pull_request'' \<and> event_key E a \<noteq> js ''push''
      \<and> event_key E a \<noteq> js ''workflow_dispatch''
      \<and> event_key E a \<notin> js ` set object_prototype_names \<longrightarrow>
      map_option decorated_text (event_widget (createCard E a)) = Some (js ''Push''))
   \<and> (eventName a = None \<or> eventName a = Some [] \<or> eventName a = Some (js ''weird_event'') \<longrightarrow>
      Option.bind (event_widget (createCard E a)) button_url =
        Some (js ''https://github.com/'' @ owner a @ js ''/'' @ repo a @ js ''/commit/'' @ sha a)
      \<and> map_option decorated_text (event_widget (createCard E a)) = Some (js ''Push''))"
proof -
  have url: "Option.bind (event_widget (createCard E a)) button_url =
      Some (js ''https://github.com/'' @ owner a @ js ''/'' @ repo a @ js ''/commit/'' @ sha a)"
    if "event_key E a \<noteq> js ''pull_request''"
    using that by (simp add: event_url_createCard eventUrl_commit)
  have label: "map_option decorated_text (event_widget (createCard E a)) = Some (js ''Push'')"
    if "event_key E a \<noteq> js ''pull_request''" "event_key E a \<noteq> js ''push''"
      "event_key E a \<noteq> js ''workflow_dispatch''"
      "event_key E a \<notin> js ` set object_prototype_names"
    using eventType_fallback [OF that]
    by (simp add: event_text_createCard eventNameFmt_def events_ne)
  have particular: "event_key E a \<noteq> js ''pull_request'' \<and> event_key E a \<noteq> js ''push''
      \<and> event_key E a \<noteq> js ''workflow_dispatch''
      \<and> event_key E a \<notin> js ` set object_prototype_names"
    if "eventName a = None \<or> eventName a = Some [] \<or> eventName a = Some (js ''weird_event'')"
  proof -
    from that consider "eventName a = None \<or> eventName a = Some []"
      | "eventName a = Some (js ''weird_event'')" by blast
    then show ?thesis
    proof cases
      case 1
      then have "event_key E a = []" by (rule event_key_empty)
      then show ?thesis using not_recognized not_inherited by simp
    next
      case 2
      then have "event_key E a = js ''weird_event''" by (rule event_key_weird)
      then show ?thesis using not_recognized not_inherited by simp
    qed
  qed
  show ?thesis
    using url label particular by blast
qed

theorem event_unrecognized_witness:
  "event_key ascii_engine (example_args\<lparr>eventName := Some (js ''Release'')\<rparr>) \<noteq> js ''pull_request''
   \<and> event_key ascii_engine (example_args\<lparr>eventName := Some (js ''Release'')\<rparr>) \<noteq> js ''push''
   \<and> event_key ascii_engine (example_args\<lparr>eventName := Some (js ''Release'')\<rparr>)
       \<noteq> js ''workflow_dispatch''
   \<and> event_key ascii_engine (example_args\<lparr>eventName := Some (js ''Release'')\<rparr>)
       \<notin> js ` set object_prototype_names
   \<and> Option.bind
        (event_widget (createCard ascii_engine (example_args\<lparr>eventName := Some (js ''Release'')\<rparr>)))
        button_url
      = Some (js ''https://github.com/octo/demo/commit/abc123'')
   \<and> map_option decorated_text
        (event_widget (createCard ascii_engine (example_args\<lparr>eventName := Some (js ''Release'')\<rparr>)))
      = Some (js ''Push'')
   \<and> map_option decorated_text
        (event_widget (createCard ascii_engine (example_args\<lparr>eventName := None\<rparr>)))
      = Some (js ''Push'')"
proof -
  let ?a = "example_args\<lparr>eventName := Some (js ''Release'')\<rparr>"
  have k: "event_key ascii_engine ?a = js ''release''"
    by (simp add: event_key_def toLowerCase_def js_def is_ascii_def ascii_lower_def)
  have ne: "js ''release'' \<noteq> js ''pull_request''" "js ''release'' \<noteq> js ''push''"
    "js ''release'' \<noteq> js ''workflow_dispatch''"
    "js ''release'' \<notin> js ` set object_prototype_names"
    by (simp_all add: object_prototype_names_def js_eq_iff)
  have u: "js ''https://github.com/'' @ owner ?a @ js ''/'' @ repo ?a @ js ''/commit/'' @ sha ?a
             = js ''https://github.com/octo/demo/commit/abc123''"
    by (simp add: example_args_def js_append [symmetric])
  show ?thesis
    using k ne u event_unrecognized [of ascii_engine ?a]
      event_unrecognized [of ascii_engine "example_args\<lparr>eventName := None\<rparr>"]
    by simp
qed


section \<open>The URLs\<close>

lemma checks_url_createCard:
  "Option.bind (status_widget (createCard E a)) button_url = Some (checksUrl E a)"
  by (simp add: status_widget_createCard button_url_def)

text \<open>
  C8. The repository URL is \<open>https://github.com/\<close>, the owner, a slash and the
  repository name. The event kind is \<open>pull_request\<close> exactly when the lower-cased
  event name is; then the event URL is the repository URL followed by \<open>/pull/\<close> and
  the number, and in every other case by \<open>/commit/\<close> and the sha. The checks URL is
  the event URL followed by \<open>/checks\<close>. The card links the event URL from the button
  of the event widget and the checks URL from the button of the status widget.
\<close>

theorem urls:
  "repoUrl a = js ''https://github.com/'' @ owner a @ js ''/'' @ repo a
   \<and> eventUrl E a =
       repoUrl a @ (if eventType E a = Str (js ''pull_request'')
                    then js ''/pull/'' @ template_number (number a)
                    else js ''/commit/'' @ sha a)
   \<and> (eventType E a = Str (js ''pull_request'') \<longleftrightarrow> event_key E a = js ''pull_request'')
   \<and> checksUrl E a = eventUrl E a @ js ''/checks''
   \<and> Option.bind (event_widget (createCard E a)) button_url = Some (eventUrl E a)
   \<and> Option.bind (status_widget (createCard E a)) button_url = Some (checksUrl E a)"
  using eventType_pull_request_iff [of E a]
  by (simp add: repoUrl_def eventUrl_def checksUrl_def eventPath_def events_pull_request_def
      event_url_createCard checks_url_createCard)

theorem urls_witness:
  "eventUrl ascii_engine (example_args\<lparr>eventName := Some (js ''Pull_Request''), number := Some 42\<rparr>)
     = js ''https://github.com/octo/demo/pull/42''
   \<and> checksUrl ascii_engine (example_args\<lparr>eventName := Some (js ''Pull_Request''), number := Some 42\<rparr>)
     = js ''https://github.com/octo/demo/pull/42/checks''
   \<and> eventUrl ascii_engine example_args = js ''https://github.com/octo/demo/commit/abc123''
   \<and> checksUrl ascii_engine example_args = js ''https://github.com/octo/demo/commit/abc123/checks''"
proof -
  let ?a = "example_args\<lparr>eventName := Some (js ''Pull_Request''), number := Some 42\<rparr>"
  note pull = urls [of ?a ascii_engine] and push = urls [of example_args ascii_engine]
  have "event_key ascii_engine ?a = js ''pull_request''"
    by (simp add: event_key_def toLowerCase_def js_def is_ascii_def ascii_lower_def)
  with pull have t: "eventType ascii_engine ?a = Str (js ''pull_request'')"
    by blast
  have "event_key ascii_engine example_args \<noteq> js ''pull_request''"
    by (simp add: event_key_def example_args_def toLowerCase_def js_def is_ascii_def ascii_lower_def)
  with push have t': "eventType ascii_engine example_args \<noteq> Str (js ''pull_request'')"
    by blast
  have d: "template_number (Some 42) = js ''42''"
    by (simp add: template_number_def decimal.simps js_def)
  have "eventUrl ascii_engine ?a = repoUrl ?a @ js ''/pull/'' @ template_number (number ?a)"
    using pull t by simp
  also have "\<dots> = js ''https://github.com/octo/demo/pull/42''"
    using pull by (simp add: d example_args_def js_append [symmetric])
  finally have e: "eventUrl ascii_engine ?a = js ''https://github.com/octo/demo/pull/42''" .
  have "checksUrl ascii_engine ?a = eventUrl ascii_engine ?a @ js ''/checks''"
    using pull by blast
  then have c: "checksUrl ascii_engine ?a = js ''https://github.com/octo/demo/pull/42/checks''"
    by (simp add: e js_append [symmetric])
  have "eventUrl ascii_engine example_args = repoUrl example_args @ js ''/commit/'' @ sha example_args"
    using push t' by simp
  also have "\<dots> = js ''https://github.com/octo/demo/commit/abc123''"
    using push by (simp add: example_args_def js_append [symmetric])
  finally have e': "eventUrl ascii_engine example_args = js ''https://github.com/octo/demo/commit/abc123''" .
  have "checksUrl ascii_engine example_args = eventUrl ascii_engine example_args @ js ''/checks''"
    using push by blast
  then have c': "checksUrl ascii_engine example_args
      = js ''https://github.com/octo/demo/commit/abc123/checks''"
    by (simp add: e' js_append [symmetric])
  show ?thesis
    using e c e' c' by simp
qed


section \<open>The name widget\<close>

lemma nameWidgets_eq:
  "nameWidgets a =
     (if 45 \<le> length (name a)
      then [DecoratedText \<lparr>icon = None, topLabel = js ''Name'', decorated_text = name a,
                            wrapText = Some True, button = None\<rparr>]
      else [])"
  by (simp add: nameWidgets_def showNameWidget_def)

lemma label_ne_Name:
  "js ''Status'' \<noteq> js ''Name''" "js ''Event'' \<noteq> js ''Name''" "js ''Ref'' \<noteq> js ''Name''"
  "js ''Actor'' \<noteq> js ''Name''"
  by (simp_all add: js_eq_iff)

lemma drop_first_section_widgets:
  "drop 4 (first_section_widgets (createCard E a)) = nameWidgets a"
  by (simp add: first_section_widgets_createCard)

lemma length_first_section_widgets:
  "length (first_section_widgets (createCard E a)) = 4 + length (nameWidgets a)"
  by (simp add: first_section_widgets_createCard)


lemma labelled_Name:
  assumes "DecoratedText d \<in> set (first_section_widgets (createCard E a))"
    and "topLabel d = js ''Name''"
  shows "DecoratedText d \<in> set (nameWidgets a)"
proof (rule ccontr)
  assume n: "DecoratedText d \<notin> set (nameWidgets a)"
  with assms(1) have "topLabel d \<in> {js ''Status'', js ''Event'', js ''Ref'', js ''Actor''}"
    unfolding first_section_widgets_createCard set_append
    by (elim UnE) (auto simp del: append.simps)
  with assms(2) show False
    using label_ne_Name by auto
qed


lemma nameWidgets_subset:
  "set (nameWidgets a) \<subseteq> set (first_section_widgets (createCard E a))"
  unfolding first_section_widgets_createCard set_append by (rule Un_upper2)

text \<open>
  C4. The first section has four widgets (status, event, ref, actor) and, after them,
  the widget with top label \<open>Name\<close> and the name as its text exactly when the name has
  45 code units or more. With a shorter name the section has the four widgets only, and
  none of its widgets has the top label \<open>Name\<close>.
\<close>

theorem name_widget:
  "drop 4 (first_section_widgets (createCard E a)) =
     (if 45 \<le> length (name a)
      then [DecoratedText \<lparr>icon = None, topLabel = js ''Name'', decorated_text = name a,
                            wrapText = Some True, button = None\<rparr>]
      else [])
   \<and> length (first_section_widgets (createCard E a)) = (if 45 \<le> length (name a) then 5 else 4)
   \<and> ((\<exists>d. DecoratedText d \<in> set (first_section_widgets (createCard E a))
            \<and> topLabel d = js ''Name'') \<longleftrightarrow> 45 \<le> length (name a))"
proof (intro conjI)
  show "drop 4 (first_section_widgets (createCard E a)) =
     (if 45 \<le> length (name a)
      then [DecoratedText \<lparr>icon = None, topLabel = js ''Name'', decorated_text = name a,
                            wrapText = Some True, button = None\<rparr>]
      else [])"
    by (simp only: drop_first_section_widgets nameWidgets_eq)
  show "length (first_section_widgets (createCard E a)) = (if 45 \<le> length (name a) then 5 else 4)"
    by (simp add: length_first_section_widgets nameWidgets_eq)
  show "(\<exists>d. DecoratedText d \<in> set (first_section_widgets (createCard E a))
            \<and> topLabel d = js ''Name'') \<longleftrightarrow> 45 \<le> length (name a)"
  proof
    assume "\<exists>d. DecoratedText d \<in> set (first_section_widgets (createCard E a))
            \<and> topLabel d = js ''Name''"
    then obtain d where "DecoratedText d \<in> set (nameWidgets a)"
      using labelled_Name by blast
    then have "nameWidgets a \<noteq> []" by auto
    then show "45 \<le> length (name a)"
      by (simp add: nameWidgets_eq split: if_splits)
  next
    let ?d = "\<lparr>icon = None, topLabel = js ''Name'', decorated_text = name a,
               wrapText = Some True, button = None\<rparr>"
    assume "45 \<le> length (name a)"
    then have "DecoratedText ?d \<in> set (nameWidgets a)"
      by (simp add: nameWidgets_eq)
    then have "DecoratedText ?d \<in> set (first_section_widgets (createCard E a))"
      using nameWidgets_subset by blast
    moreover have "topLabel ?d = js ''Name''" by simp
    ultimately show "\<exists>d. DecoratedText d \<in> set (first_section_widgets (createCard E a))
            \<and> topLabel d = js ''Name''"
      by blast
  qed
qed

theorem name_widget_witness:
  "length (name (example_args\<lparr>name := replicate 44 0x61\<rparr>)) = 44
   \<and> drop 4 (first_section_widgets (createCard ascii_engine (example_args\<lparr>name := replicate 44 0x61\<rparr>)))
       = []
   \<and> length (first_section_widgets (createCard ascii_engine (example_args\<lparr>name := replicate 44 0x61\<rparr>)))
       = 4
   \<and> length (name (example_args\<lparr>name := replicate 45 0x61\<rparr>)) = 45
   \<and> drop 4 (first_section_widgets (createCard ascii_engine (example_args\<lparr>name := replicate 45 0x61\<rparr>)))
       = [DecoratedText \<lparr>icon = None, topLabel = js ''Name'', decorated_text = replicate 45 0x61,
                          wrapText = Some True, button = None\<rparr>]"
proof -
  have l: "length (name (example_args\<lparr>name := replicate 44 0x61\<rparr>)) = 44"
    "length (name (example_args\<lparr>name := replicate 45 0x61\<rparr>)) = 45"
    "name (example_args\<lparr>name := replicate 45 0x61\<rparr>) = replicate 45 0x61"
    by simp_all
  show ?thesis
    using name_widget [of ascii_engine "example_args\<lparr>name := replicate 44 0x61\<rparr>"]
      name_widget [of ascii_engine "example_args\<lparr>name := replicate 45 0x61\<rparr>"]
    unfolding l by simp
qed

section \<open>The status icon\<close>

lemma statusType_cases:
  "statusType E a =
     (if statusLower E a = js ''success'' then js ''success''
      else if statusLower E a = js ''failure'' then js ''failure''
      else js ''cancelled'')"
  by (simp add: statusType_def)

lemma status_icon_literals:
  "assets @ js ''status_'' @ js ''success'' @ js ''.png'' =
     js ''https://raw.githubusercontent.com/ciro-maciel/google-chat-github-action/main/assets/status_success.png''"
  "assets @ js ''status_'' @ js ''failure'' @ js ''.png'' =
     js ''https://raw.githubusercontent.com/ciro-maciel/google-chat-github-action/main/assets/status_failure.png''"
  "assets @ js ''status_'' @ js ''cancelled'' @ js ''.png'' =
     js ''https://raw.githubusercontent.com/ciro-maciel/google-chat-github-action/main/assets/status_cancelled.png''"
  by (simp_all add: assets_def js_append [symmetric])

text \<open>
  C10. The status type is one of \<open>success\<close>, \<open>failure\<close> and \<open>cancelled\<close>, and the
  icon of the status widget is the asset \<open>status_success.png\<close> when the lower-cased
  status is \<open>success\<close>, \<open>status_failure.png\<close> when it is \<open>failure\<close>, and
  \<open>status_cancelled.png\<close> for every other status.
\<close>

theorem status_icon:
  "statusType E a \<in> {js ''success'', js ''failure'', js ''cancelled''}
   \<and> Option.bind (status_widget (createCard E a)) icon_url =
       Some (if statusLower E a = js ''success''
             then js ''https://raw.githubusercontent.com/ciro-maciel/google-chat-github-action/main/assets/status_success.png''
             else if statusLower E a = js ''failure''
             then js ''https://raw.githubusercontent.com/ciro-maciel/google-chat-github-action/main/assets/status_failure.png''
             else js ''https://raw.githubusercontent.com/ciro-maciel/google-chat-github-action/main/assets/status_cancelled.png'')"
proof
  show "statusType E a \<in> {js ''success'', js ''failure'', js ''cancelled''}"
    by (simp add: statusType_cases)
  have "Option.bind (status_widget (createCard E a)) icon_url =
      Some (assets @ js ''status_'' @ statusType E a @ js ''.png'')"
    by (simp add: status_widget_createCard icon_url_def)
  then show "Option.bind (status_widget (createCard E a)) icon_url =
       Some (if statusLower E a = js ''success''
             then js ''https://raw.githubusercontent.com/ciro-maciel/google-chat-github-action/main/assets/status_success.png''
             else if statusLower E a = js ''failure''
             then js ''https://raw.githubusercontent.com/ciro-maciel/google-chat-github-action/main/assets/status_failure.png''
             else js ''https://raw.githubusercontent.com/ciro-maciel/google-chat-github-action/main/assets/status_cancelled.png'')"
    by (simp add: statusType_cases status_icon_literals)
qed

theorem status_icon_witness:
  "Option.bind (status_widget (createCard ascii_engine example_args)) icon_url =
     Some (js ''https://raw.githubusercontent.com/ciro-maciel/google-chat-github-action/main/assets/status_success.png'')
   \<and> Option.bind
        (status_widget (createCard ascii_engine (example_args\<lparr>validationStatus := js ''Failure''\<rparr>)))
        icon_url =
     Some (js ''https://raw.githubusercontent.com/ciro-maciel/google-chat-github-action/main/assets/status_failure.png'')
   \<and> Option.bind
        (status_widget (createCard ascii_engine (example_args\<lparr>validationStatus := js ''skipped''\<rparr>)))
        icon_url =
     Some (js ''https://raw.githubusercontent.com/ciro-maciel/google-chat-github-action/main/assets/status_cancelled.png'')"
proof -
  have l: "statusLower ascii_engine example_args = js ''success''"
    "statusLower ascii_engine (example_args\<lparr>validationStatus := js ''Failure''\<rparr>) = js ''failure''"
    "statusLower ascii_engine (example_args\<lparr>validationStatus := js ''skipped''\<rparr>) = js ''skipped''"
    by (simp_all add: statusLower_def example_args_def toLowerCase_def js_def is_ascii_def
        ascii_lower_def)
  have ne: "js ''failure'' \<noteq> js ''success''" "js ''skipped'' \<noteq> js ''success''"
    "js ''skipped'' \<noteq> js ''failure''"
    by (simp_all add: js_eq_iff)
  show ?thesis
    using l ne status_icon [of ascii_engine example_args]
      status_icon [of ascii_engine "example_args\<lparr>validationStatus := js ''Failure''\<rparr>"]
      status_icon [of ascii_engine "example_args\<lparr>validationStatus := js ''skipped''\<rparr>"]
    by simp
qed


section \<open>Delivery\<close>

text \<open>What \<open>sendNotification\<close> does, case by case of what the network gives.\<close>

lemma sendNotification_eq:
  "sendNotification E net ctx n u vi vs vu vd st =
     (let b = createBody n (createCard E (notification_args ctx n vi vs vu vd));
          st' = st\<lparr>posts := posts st @ [(u, b)]\<rparr>
      in case net u b of
           NoResponse m \<Rightarrow>
             (Inr False, st'\<lparr>debug_log := debug_log st @ [RequestFailed b []]\<rparr>)
         | HttpResponse r \<Rightarrow>
             if 200 \<le> status r \<and> status r < 300
             then (Inr True, st'\<lparr>debug_log := debug_log st @ [RequestSuccess (status r)]\<rparr>)
             else (Inr False, st'\<lparr>debug_log := debug_log st @ [RequestFailed b (data r)]\<rparr>))"
  by (simp add: sendNotification_def Let_def try_catch_def await_def axios_post_def
      core_debug_def return_def split: transport.splits)

lemma posts_sendNotification:
  "posts (snd (sendNotification E net ctx n u vi vs vu vd st)) =
     posts st @ [(u, createBody n (createCard E (notification_args ctx n vi vs vu vd)))]"
  by (simp add: sendNotification_eq Let_def split: transport.splits)



text \<open>
  C5. The body is the object with the empty \<open>text\<close> and one entry in \<open>cardsV2\<close>,
  whose \<open>cardId\<close> is the name and whose card is the name followed by the header and
  the sections of the built card; and that body, built from the card of the
  notification, is what \<open>sendNotification\<close> posts to the URL.
\<close>

theorem delivered_body:
  "createBody n c =
     \<lparr>body_text = [],
      cardsV2 = [\<lparr>cardId = n,
                  entry_card = \<lparr>card_name = n, card_header = header c,
                                card_sections = sections c\<rparr>\<rparr>]\<rparr>
   \<and> posts (snd (sendNotification E net ctx n u vi vs vu vd st)) =
       posts st @ [(u, createBody n (createCard E (notification_args ctx n vi vs vu vd)))]"
proof
  show "createBody n c =
     \<lparr>body_text = [],
      cardsV2 = [\<lparr>cardId = n,
                  entry_card = \<lparr>card_name = n, card_header = header c,
                                card_sections = sections c\<rparr>\<rparr>]\<rparr>"
    by (simp add: createBody_def)
  show "posts (snd (sendNotification E net ctx n u vi vs vu vd st)) =
       posts st @ [(u, createBody n (createCard E (notification_args ctx n vi vs vu vd)))]"
    by (rule posts_sendNotification)
qed



theorem delivered_body_witness:
  "map (\<lambda>(u, b). (u, body_text b, map cardId (cardsV2 b), map (\<lambda>e. card_name (entry_card e)) (cardsV2 b)))
     (posts (snd (sendNotification ascii_engine network_ok example_context (js ''build'')
        (js ''https://chat.example/hook'') (js ''V-1'') (js ''success'')
        (js ''https://example.com/v/1'') (js ''all good'') initial_state)))
   = [(js ''https://chat.example/hook'', [], [js ''build''], [js ''build''])]"
  using delivered_body [of "js ''build''"
      "createCard ascii_engine (notification_args example_context (js ''build'') (js ''V-1'')
         (js ''success'') (js ''https://example.com/v/1'') (js ''all good''))"
      ascii_engine network_ok example_context "js ''https://chat.example/hook''" "js ''V-1''"
      "js ''success''" "js ''https://example.com/v/1''" "js ''all good''" initial_state]
  by (simp add: initial_state_def)



section \<open>Missing inputs\<close>

lemma await_getInput_missing:
  "missing inputs n \<Longrightarrow>
   await (core_getInput inputs n True) f st =
     (Inl (Error (js ''Input required and not supplied: '' @ js n)), st)"
  by (auto simp: missing_def await_def core_getInput_def throw_def)

lemma await_getInput_present:
  "\<not> missing inputs n \<Longrightarrow>
   await (core_getInput inputs n True) f st = f (trim (the (inputs n))) st"
  by (auto simp: missing_def await_def core_getInput_def return_def)

lemma run_first_missing:
  assumes "find (missing inputs) required_inputs = Some n"
  shows "run E net ctx inputs st =
    (Inr (), st\<lparr>failed := failed st @
       [js ''error sending notification to google chat: Error: Input required and not supplied: ''
          @ js n]\<rparr>)"
  using assms
  by (simp add: required_inputs_def run_def try_catch_def await_getInput_missing
      await_getInput_present core_setFailed_def template_exn_def js_append [symmetric]
      split: if_splits)

lemma find_missing:
  assumes "missing inputs ''name'' \<or> missing inputs ''url'' \<or> missing inputs ''validationId''
    \<or> missing inputs ''validationStatus'' \<or> missing inputs ''validationUrl''
    \<or> missing inputs ''validationDetails''"
  shows "\<exists>n. find (missing inputs) required_inputs = Some n \<and> missing inputs n"
proof -
  from assms have "\<exists>n\<in>set required_inputs. missing inputs n"
    by (auto simp: required_inputs_def)
  then have "find (missing inputs) required_inputs \<noteq> None"
    by (auto simp: find_None_iff)
  then obtain n where n: "find (missing inputs) required_inputs = Some n"
    by blast
  then have "missing inputs n"
    by (auto simp: find_Some_iff)
  with n show ?thesis by blast
qed

text \<open>
  C7. When one of the six inputs is missing, \<open>run\<close> returns (it does not throw)
  having marked the run as failed, once, with the message that names the first missing
  input; it has posted nothing and written no debug line, so \<open>sendNotification\<close>, which
  builds the card and posts it, was not entered.
\<close>

theorem run_missing_input:
  "missing inputs ''name'' \<or> missing inputs ''url'' \<or> missing inputs ''validationId''
     \<or> missing inputs ''validationStatus'' \<or> missing inputs ''validationUrl''
     \<or> missing inputs ''validationDetails'' \<Longrightarrow>
   (\<exists>n. find (missing inputs) required_inputs = Some n \<and> missing inputs n
      \<and> run E net ctx inputs st =
          (Inr (), st\<lparr>failed := failed st @
             [js ''error sending notification to google chat: Error: Input required and not supplied: ''
                @ js n]\<rparr>))
   \<and> fst (run E net ctx inputs st) = Inr ()
   \<and> posts (snd (run E net ctx inputs st)) = posts st
   \<and> debug_log (snd (run E net ctx inputs st)) = debug_log st
   \<and> length (failed (snd (run E net ctx inputs st))) = length (failed st) + 1"
proof -
  assume "missing inputs ''name'' \<or> missing inputs ''url'' \<or> missing inputs ''validationId''
     \<or> missing inputs ''validationStatus'' \<or> missing inputs ''validationUrl''
     \<or> missing inputs ''validationDetails''"
  then obtain n where n: "find (missing inputs) required_inputs = Some n" "missing inputs n"
    using find_missing by blast
  note r = run_first_missing [OF n(1), of E net ctx st]
  show ?thesis
    using n by (auto simp: r)
qed


theorem run_missing_input_witness:
  "missing (example_inputs(''validationUrl'' := None)) ''validationUrl''
   \<and> run ascii_engine network_ok example_context (example_inputs(''validationUrl'' := None))
         initial_state =
       (Inr (), initial_state\<lparr>failed :=
          [js ''error sending notification to google chat: Error: Input required and not supplied: validationUrl'']\<rparr>)
   \<and> posts (snd (run ascii_engine network_ok example_context
         (example_inputs(''validationUrl'' := None)) initial_state)) = []"
proof -
  let ?i = "example_inputs(''validationUrl'' := None)"
  have m: "missing ?i ''validationUrl''"
    by (simp add: missing_def)
  have f: "find (missing ?i) required_inputs = Some ''validationUrl''"
    by (simp add: required_inputs_def missing_def example_inputs_def js_def)
  have l: "js ''error sending notification to google chat: Error: Input required and not supplied: ''
             @ js ''validationUrl''
           = js ''error sending notification to google chat: Error: Input required and not supplied: validationUrl''"
    by (simp add: js_append [symmetric])
  have e: "failed initial_state = []" "posts initial_state = []"
    by (simp_all add: initial_state_def)
  show ?thesis
    using m f l e run_missing_input [of ?i ascii_engine network_ok example_context initial_state]
    by auto
qed

section \<open>Determinism\<close>



end
